theory Spec2Isabelle
  imports Main "HOL-Library.Word"
begin

section \<open>The gateway of main.go: data\<close>

text \<open>
  The development follows \<^verbatim>\<open>src/main.go\<close>: the two closures registered for
  \<^verbatim>\<open>/read\<close> and \<^verbatim>\<open>/write\<close> and the function \<^verbatim>\<open>main\<close> that builds the shared
  write client and serves. Byte slices and Go strings are both \<^typ>\<open>string\<close>
  (a \<^typ>\<open>char\<close> is one byte).
\<close>

type_synonym bytes = string

text \<open>
  \<^verbatim>\<open>type Config struct\<close> (lines 21-31). \<^verbatim>\<open>TimeoutSeconds\<close> is a Go \<^verbatim>\<open>int\<close>, taken
  at its 64-bit width; \<^verbatim>\<open>time.Duration\<close> is an \<^verbatim>\<open>int64\<close> count of nanoseconds.
\<close>

record Config =
  SplunkUrl :: string
  SplunkMetricsIndex :: string
  SplunkMetricsSourceType :: string
  SplunkHECURL :: string
  SplunkHECToken :: string
  TimeoutSeconds :: "64 word"
  ListenAddr :: string
  LogFilePath :: string
  Debug :: bool

text \<open>The flag defaults of \<^verbatim>\<open>init\<close> (lines 64-72).\<close>

definition default_Config :: Config where
  "default_Config =
     \<lparr>SplunkUrl = ''https://127.0.0.1:8089'',
      SplunkMetricsIndex = ''*'',
      SplunkMetricsSourceType = ''DaoCloud_promu_metrics'',
      SplunkHECURL = ''https://127.0.0.1:8088'',
      SplunkHECToken = '''',
      TimeoutSeconds = 60,
      ListenAddr = ''127.0.0.1:9970'',
      LogFilePath = ''/var/log'',
      Debug = False\<rparr>"

subsection \<open>The logger\<close>

text \<open>
  \<^verbatim>\<open>loadLogger\<close> (lines 45-60) picks the destination from \<^verbatim>\<open>LogFilePath\<close> and the level
  filter from \<^verbatim>\<open>Debug\<close>. A logger is that pair; the \<^verbatim>\<open>time\<close> and \<^verbatim>\<open>caller\<close> context
  values that \<^verbatim>\<open>log.With\<close> adds to every record are left out of the records kept here.
\<close>

datatype sink = Stdout | RotateLogs string string

record logger =
  dest :: sink
  allowDebug :: bool

definition loadLogger :: "Config \<Rightarrow> logger" where
  "loadLogger config =
     \<lparr>dest = (if LogFilePath config = ''-'' then Stdout
              else RotateLogs (LogFilePath config) ''ropee.log''),
      allowDebug = Debug config\<rparr>"

datatype level = LevelDebug | LevelInfo | LevelWarn | LevelError

text \<open>A logged value is a string or, for the key \<^verbatim>\<open>query\<close> of line 128, the request.\<close>

datatype 'rq logval = Str string | Query 'rq

type_synonym 'rq logrecord = "level \<times> (string \<times> 'rq logval) list"

text \<open>\<^verbatim>\<open>level.AllowDebug\<close> lets every level through, \<^verbatim>\<open>level.AllowInfo\<close> all but debug.\<close>

fun allowed :: "logger \<Rightarrow> level \<Rightarrow> bool" where
  "allowed l LevelDebug = allowDebug l"
| "allowed l LevelInfo = True"
| "allowed l LevelWarn = True"
| "allowed l LevelError = True"

subsection \<open>The backend client and the process state\<close>

text \<open>
  The nine arguments of \<^verbatim>\<open>storage.NewClient\<close>, in the order of the calls at lines
  101-110 and 133-142.
\<close>

record client_args =
  a_url :: string
  a_user :: string
  a_password :: string
  a_index :: string
  a_sourcetype :: string
  a_hecUrl :: string
  a_hecToken :: string
  a_timeout :: "64 word"
  a_logger :: logger

text \<open>
  What the gateway asks of package \<^verbatim>\<open>storage\<close>, in order: a construction, a read on a
  handle, a write on a handle. The handle type \<open>'h\<close> is Go's \<^verbatim>\<open>*storage.Client\<close>, whose
  values include \<^verbatim>\<open>nil\<close>.
\<close>

datatype ('h, 'rq, 'wq) call =
    NewClientCall client_args
  | ReadCall 'h 'rq
  | WriteCall 'h 'wq

text \<open>
  Modelled from the spec: package \<^verbatim>\<open>metrics\<close> is not among the sources; its two counters
  are "monotonically increasing named counters" and \<^verbatim>\<open>Add(1)\<close> adds one. They are
  natural numbers here.

  The state shared by all requests: the two counters, the records that reached the
  logger, the calls made to package \<^verbatim>\<open>storage\<close> so far, and the state of the store
  behind it.
\<close>

record ('h, 'rq, 'wq, 'b) world =
  ReadRequestCounter :: nat
  WriteRequestCounter :: nat
  logged :: "'rq logrecord list"
  calls :: "('h, 'rq, 'wq) call list"
  backend :: 'b

text \<open>A Go call returns or panics.\<close>

datatype 'a outcome = Panics | Returns 'a

text \<open>
  The collaborators main.go calls and does not define. \<^verbatim>\<open>snappy.Decode\<close>,
  \<^verbatim>\<open>proto.Unmarshal\<close> and \<^verbatim>\<open>proto.Marshal\<close> return an error (\<open>Inl\<close>, its message) or a
  value; \<^verbatim>\<open>snappy.Encode\<close> has no error. \<^verbatim>\<open>storage.NewClient\<close> returns a handle and an
  error side by side, as the Go pair does. \<^verbatim>\<open>Read\<close> and \<^verbatim>\<open>Write\<close> are methods on the
  handle; they see and change the store, and may panic (a method called on a
  \<^verbatim>\<open>nil\<close> handle panics where it dereferences it).
\<close>

record ('h, 'rq, 'rs, 'wq, 'b) env =
  snappy_Decode :: "bytes \<Rightarrow> string + bytes"
  snappy_Encode :: "bytes \<Rightarrow> bytes"
  Unmarshal_ReadRequest :: "bytes \<Rightarrow> string + 'rq"
  Unmarshal_WriteRequest :: "bytes \<Rightarrow> string + 'wq"
  Marshal_ReadResponse :: "'rs \<Rightarrow> string + bytes"
  NewClient :: "client_args \<Rightarrow> 'h \<times> string option"
  client_Read :: "'h \<Rightarrow> 'rq \<Rightarrow> 'b \<Rightarrow> (string + 'rs) outcome \<times> 'b"
  client_Write :: "'h \<Rightarrow> 'wq \<Rightarrow> 'b \<Rightarrow> string option outcome \<times> 'b"

subsection \<open>Requests and response writers\<close>

text \<open>
  Of an \<^verbatim>\<open>*http.Request\<close>: the method, what \<^verbatim>\<open>ioutil.ReadAll(r.Body)\<close> returns (an
  error or the whole body) and the credentials of a well-formed Basic
  \<^verbatim>\<open>Authorization\<close> header, if there is one.
\<close>

record Request =
  Method :: string
  Body :: "string + bytes"
  Authorization :: "(string \<times> string) option"

text \<open>\<^verbatim>\<open>r.BasicAuth()\<close>: user, password and whether the header was there.\<close>

definition BasicAuth :: "Request \<Rightarrow> string \<times> string \<times> bool" where
  "BasicAuth r =
     (case Authorization r of
        None \<Rightarrow> ('''', '''', False)
      | Some (u, p) \<Rightarrow> (u, p, True))"

text \<open>
  An \<^verbatim>\<open>http.ResponseWriter\<close>: the header map the handler edits; the status and the
  headers that went out with it, once \<^verbatim>\<open>WriteHeader\<close> has run; the body bytes the
  connection took; and what the connection answers to the coming \<^verbatim>\<open>Write\<close> calls
  (\<open>Some e\<close>: that call fails with \<open>e\<close> and carries nothing; past the end of the
  list every call succeeds).
\<close>

type_synonym header = "string \<rightharpoonup> string"

record ResponseWriter =
  Header :: header
  wroteHeader :: "(nat \<times> header) option"
  written :: bytes
  faults :: "string option list"

definition new_ResponseWriter :: "string option list \<Rightarrow> ResponseWriter" where
  "new_ResponseWriter fs = \<lparr>Header = Map.empty, wroteHeader = None, written = [], faults = fs\<rparr>"

definition Header_Set :: "string \<Rightarrow> string \<Rightarrow> ResponseWriter \<Rightarrow> ResponseWriter" where
  "Header_Set k v w = w\<lparr>Header := (Header w)(k \<mapsto> v)\<rparr>"

text \<open>The first \<^verbatim>\<open>WriteHeader\<close> fixes status and headers; a later one changes nothing.\<close>

definition WriteHeader :: "nat \<Rightarrow> ResponseWriter \<Rightarrow> ResponseWriter" where
  "WriteHeader code w =
     (case wroteHeader w of
        None \<Rightarrow> w\<lparr>wroteHeader := Some (code, Header w)\<rparr>
      | Some _ \<Rightarrow> w)"

text \<open>\<^verbatim>\<open>Write\<close> sends status 200 first if no status went out yet.\<close>

definition rw_Write :: "bytes \<Rightarrow> ResponseWriter \<Rightarrow> string option \<times> ResponseWriter" where
  "rw_Write data w =
     (let w1 = WriteHeader 200 w in
      case faults w1 of
        [] \<Rightarrow> (None, w1\<lparr>written := written w1 @ data\<rparr>)
      | None # fs \<Rightarrow> (None, w1\<lparr>written := written w1 @ data, faults := fs\<rparr>)
      | Some e # fs \<Rightarrow> (Some e, w1\<lparr>faults := fs\<rparr>))"

text \<open>
  \<^verbatim>\<open>http.Error\<close>: two headers, the status, then the message and a newline through
  \<^verbatim>\<open>fmt.Fprintln\<close>, whose error is dropped.
\<close>

definition http_Error :: "string \<Rightarrow> nat \<Rightarrow> ResponseWriter \<Rightarrow> ResponseWriter" where
  "http_Error msg code w =
     snd (rw_Write (msg @ [CHR 0x0A])
       (WriteHeader code
         (Header_Set ''X-Content-Type-Options'' ''nosniff''
           (Header_Set ''Content-Type'' ''text/plain; charset=utf-8'' w))))"

definition StatusBadRequest :: nat where
  "StatusBadRequest = 400"

definition StatusInternalServerError :: nat where
  "StatusInternalServerError = 500"

section \<open>The handlers\<close>

definition Log ::
  "logger \<Rightarrow> level \<Rightarrow> (string \<times> 'rq logval) list \<Rightarrow>
   ('h, 'rq, 'wq, 'b) world \<Rightarrow> ('h, 'rq, 'wq, 'b) world" where
  "Log l lv kvs s = (if allowed l lv then s\<lparr>logged := logged s @ [(lv, kvs)]\<rparr> else s)"

text \<open>\<^verbatim>\<open>time.Second\<close>, in nanoseconds.\<close>

definition time_Second :: "64 word" where
  "time_Second = 1000000000"

text \<open>How a handler invocation ends: it returns, or a panic unwinds it.\<close>

datatype exit = Done | Panicked

text \<open>The arguments of the per-request construction at lines 101-110.\<close>

definition read_args :: "Config \<Rightarrow> logger \<Rightarrow> string \<Rightarrow> string \<Rightarrow> client_args" where
  "read_args config l user pass =
     \<lparr>a_url = SplunkUrl config,
      a_user = user,
      a_password = pass,
      a_index = SplunkMetricsIndex config,
      a_sourcetype = SplunkMetricsSourceType config,
      a_hecUrl = SplunkHECURL config,
      a_hecToken = SplunkHECToken config,
      a_timeout = time_Second * TimeoutSeconds config,
      a_logger = l\<rparr>"

text \<open>The closure registered for \<^verbatim>\<open>/read\<close> (lines 79-132).\<close>

definition handle_read ::
  "('h, 'rq, 'rs, 'wq, 'b) env \<Rightarrow> Config \<Rightarrow> logger \<Rightarrow> Request \<Rightarrow> ResponseWriter \<Rightarrow>
   ('h, 'rq, 'wq, 'b) world \<Rightarrow> ('h, 'rq, 'wq, 'b) world \<times> ResponseWriter \<times> exit" where
  "handle_read env config l r w s =
     (case Body r of
        Inl err \<Rightarrow>
          (Log l LevelError [(''msg'', Str ''Read error''), (''err'', Str err)] s,
           http_Error err StatusInternalServerError w, Done)
      | Inr compressed \<Rightarrow>
     (case snappy_Decode env compressed of
        Inl err \<Rightarrow>
          (Log l LevelError [(''msg'', Str ''Decode error''), (''err'', Str err)] s,
           http_Error err StatusBadRequest w, Done)
      | Inr reqBuf \<Rightarrow>
     (let s1 = s\<lparr>ReadRequestCounter := ReadRequestCounter s + 1\<rparr> in
      case Unmarshal_ReadRequest env reqBuf of
        Inl err \<Rightarrow>
          (Log l LevelError [(''msg'', Str ''Unmarshal error''), (''err'', Str err)] s1,
           http_Error err StatusBadRequest w, Done)
      | Inr req \<Rightarrow>
     (let (user, pass, _) = BasicAuth r;
          args = read_args config l user pass;
          (readClient, _) = NewClient env args;
          s2 = s1\<lparr>calls := calls s1 @ [NewClientCall args]\<rparr>;
          (res, b) = client_Read env readClient req (backend s2);
          s3 = s2\<lparr>calls := calls s2 @ [ReadCall readClient req], backend := b\<rparr>
      in case res of
        Panics \<Rightarrow> (s3, w, Panicked)
      | Returns (Inl err) \<Rightarrow> (s3, http_Error err StatusInternalServerError w, Done)
      | Returns (Inr resp) \<Rightarrow>
     (case Marshal_ReadResponse env resp of
        Inl err \<Rightarrow> (s3, http_Error err StatusInternalServerError w, Done)
      | Inr data \<Rightarrow>
     (let w1 = Header_Set ''Content-Type'' ''application/x-protobuf'' w;
          w2 = Header_Set ''Content-Encoding'' ''snappy'' w1;
          (werr, w3) = rw_Write (snappy_Encode env data) w2
      in case werr of
        None \<Rightarrow> (s3, w3, Done)
      | Some err \<Rightarrow>
          (Log l LevelWarn
             [(''msg'', Str ''Error executing query''), (''query'', Query req),
              (''err'', Str err)] s3,
           http_Error err StatusInternalServerError w3, Done)))))))"

text \<open>The arguments of the construction at lines 133-142.\<close>

definition write_args :: "Config \<Rightarrow> logger \<Rightarrow> client_args" where
  "write_args config l =
     \<lparr>a_url = SplunkUrl config,
      a_user = '''',
      a_password = '''',
      a_index = SplunkMetricsIndex config,
      a_sourcetype = SplunkMetricsSourceType config,
      a_hecUrl = SplunkHECURL config,
      a_hecToken = SplunkHECToken config,
      a_timeout = time_Second * TimeoutSeconds config,
      a_logger = l\<rparr>"

text \<open>
  The closure registered for \<^verbatim>\<open>/write\<close> (lines 143-173); \<open>writeClient\<close> is the
  variable of \<^verbatim>\<open>main\<close> it captures.
\<close>

definition handle_write ::
  "('h, 'rq, 'rs, 'wq, 'b) env \<Rightarrow> logger \<Rightarrow> 'h \<Rightarrow> Request \<Rightarrow> ResponseWriter \<Rightarrow>
   ('h, 'rq, 'wq, 'b) world \<Rightarrow> ('h, 'rq, 'wq, 'b) world \<times> ResponseWriter \<times> exit" where
  "handle_write env l writeClient r w s =
     (case Body r of
        Inl err \<Rightarrow>
          (Log l LevelError [(''msg'', Str ''Read error''), (''err'', Str err)] s,
           http_Error err StatusInternalServerError w, Done)
      | Inr compressed \<Rightarrow>
     (case snappy_Decode env compressed of
        Inl err \<Rightarrow>
          (Log l LevelError [(''msg'', Str ''Decode error''), (''err'', Str err)] s,
           http_Error err StatusBadRequest w, Done)
      | Inr reqBuf \<Rightarrow>
     (let s1 = s\<lparr>WriteRequestCounter := WriteRequestCounter s + 1\<rparr> in
      case Unmarshal_WriteRequest env reqBuf of
        Inl err \<Rightarrow>
          (Log l LevelError [(''msg'', Str ''Unmarshal error''), (''err'', Str err)] s1,
           http_Error err StatusBadRequest w, Done)
      | Inr req \<Rightarrow>
     (let (res, b) = client_Write env writeClient req (backend s1);
          s2 = s1\<lparr>calls := calls s1 @ [WriteCall writeClient req], backend := b\<rparr>
      in case res of
        Panics \<Rightarrow> (s2, w, Panicked)
      | Returns (Some err) \<Rightarrow> (s2, http_Error err StatusInternalServerError w, Done)
      | Returns None \<Rightarrow>
     (let w1 = WriteHeader 200 w;
          (werr, w2) = rw_Write ''ok'' w1
      in case werr of
        None \<Rightarrow> (s2, w2, Done)
      | Some err \<Rightarrow>
          (Log l LevelError [(''action'', Str ''write''), (''err'', Str err)] s2,
           w2, Done))))))"

section \<open>The process\<close>

text \<open>
  \<^verbatim>\<open>main\<close> (lines 76-178) registers the handlers on the default mux, builds the write
  client, logs the start and serves. The server is taken over a finite sequence of
  arrivals, one handler run after the other; an arrival is the route the mux chose
  (requests for \<^verbatim>\<open>/metrics\<close> and for unregistered paths never reach either closure
  and are left out), the request, and what the connection will answer to the
  handler's writes. The server survives a panicking handler, as \<^verbatim>\<open>net/http\<close> recovers
  it. \<open>lerr\<close> is the error \<^verbatim>\<open>http.ListenAndServe\<close> returns with.
\<close>

datatype route = ReadRoute | WriteRoute

type_synonym arrival = "route \<times> Request \<times> string option list"

fun serve ::
  "('h, 'rq, 'rs, 'wq, 'b) env \<Rightarrow> Config \<Rightarrow> logger \<Rightarrow> 'h \<Rightarrow> arrival list \<Rightarrow>
   ('h, 'rq, 'wq, 'b) world \<Rightarrow> ('h, 'rq, 'wq, 'b) world \<times> (ResponseWriter \<times> exit) list" where
  "serve env config l writeClient [] s = (s, [])"
| "serve env config l writeClient ((rt, r, fs) # rest) s =
     (let (s1, out) =
            (case rt of
               ReadRoute \<Rightarrow> handle_read env config l r (new_ResponseWriter fs) s
             | WriteRoute \<Rightarrow> handle_write env l writeClient r (new_ResponseWriter fs) s);
          (s2, outs) = serve env config l writeClient rest s1
      in (s2, out # outs))"

definition main ::
  "('h, 'rq, 'rs, 'wq, 'b) env \<Rightarrow> Config \<Rightarrow> arrival list \<Rightarrow> string \<Rightarrow>
   ('h, 'rq, 'wq, 'b) world \<Rightarrow> ('h, 'rq, 'wq, 'b) world \<times> (ResponseWriter \<times> exit) list" where
  "main env config arrivals lerr s =
     (let l = loadLogger config;
          args = write_args config l;
          (writeClient, _) = NewClient env args;
          s1 = s\<lparr>calls := calls s @ [NewClientCall args]\<rparr>;
          s2 = Log l LevelInfo
                 [(''msg'', Str ''starting server...''), (''listen'', Str (ListenAddr config))] s1;
          (s3, outs) = serve env config l writeClient arrivals s2
      in (Log l LevelError [(''action'', Str ''serve''), (''err'', Str lerr)] s3, outs))"

section \<open>Notions used in the statements\<close>

text \<open>The status that went out, and the headers that went out with it.\<close>

definition status :: "ResponseWriter \<Rightarrow> nat option" where
  "status w = map_option fst (wroteHeader w)"

definition sent_header :: "ResponseWriter \<Rightarrow> header option" where
  "sent_header w = map_option snd (wroteHeader w)"

text \<open>The calls made to package \<^verbatim>\<open>storage\<close> between a state and a later one.\<close>

definition added ::
  "('h, 'rq, 'wq, 'b) world \<Rightarrow> ('h, 'rq, 'wq, 'b) world \<Rightarrow> ('h, 'rq, 'wq) call list" where
  "added s s' = drop (length (calls s)) (calls s')"

text \<open>What the connection answers to the first write of a response.\<close>

fun first_fault :: "string option list \<Rightarrow> string option" where
  "first_fault [] = None"
| "first_fault (f # fs) = f"

fun is_NewClientCall :: "('h, 'rq, 'wq) call \<Rightarrow> bool" where
  "is_NewClientCall (NewClientCall a) = True"
| "is_NewClientCall (ReadCall h q) = False"
| "is_NewClientCall (WriteCall h q) = False"

text \<open>An arrival on \<^verbatim>\<open>/read\<close> whose body is read, decompressed and parsed.\<close>

fun read_decodes :: "('h, 'rq, 'rs, 'wq, 'b) env \<Rightarrow> arrival \<Rightarrow> bool" where
  "read_decodes env (WriteRoute, r, fs) = False"
| "read_decodes env (ReadRoute, r, fs) =
     (case Body r of
        Inl e \<Rightarrow> False
      | Inr compressed \<Rightarrow>
          (case snappy_Decode env compressed of
             Inl e \<Rightarrow> False
           | Inr reqBuf \<Rightarrow>
               (case Unmarshal_ReadRequest env reqBuf of Inl e \<Rightarrow> False | Inr req \<Rightarrow> True)))"


section \<open>Test doubles\<close>

text \<open>
  A toy instance of the collaborators, for evaluating the handlers on concrete
  requests. A compressed payload is \<open>s\<close> followed by the data; a read request is \<open>q\<close>
  followed by a query, a write request \<open>w\<close> followed by a batch, a read response
  \<open>r\<close> followed by its content. A handle is the arguments it was built from, or
  \<open>None\<close> for \<^verbatim>\<open>nil\<close>: construction fails on an empty URL. The store is the list of
  batches written; a call on the \<^verbatim>\<open>nil\<close> handle panics, a write without a token is
  refused, and a read of an empty store is an error.
\<close>

fun untag :: "char \<Rightarrow> string \<Rightarrow> bytes \<Rightarrow> string + bytes" where
  "untag t msg [] = Inl msg"
| "untag t msg (x # xs) = (if x = t then Inr xs else Inl msg)"

definition toy_NewClient :: "client_args \<Rightarrow> client_args option \<times> string option" where
  "toy_NewClient a =
     (if a_url a = [] then (None, Some ''parse : empty url'') else (Some a, None))"

fun toy_Read ::
  "client_args option \<Rightarrow> string \<Rightarrow> string list \<Rightarrow> (string + string) outcome \<times> string list" where
  "toy_Read None q b = (Panics, b)"
| "toy_Read (Some a) q [] = (Returns (Inl ''no results''), [])"
| "toy_Read (Some a) q (x # xs) = (Returns (Inr (concat (x # xs))), x # xs)"

fun toy_Write ::
  "client_args option \<Rightarrow> string \<Rightarrow> string list \<Rightarrow> string option outcome \<times> string list" where
  "toy_Write None q b = (Panics, b)"
| "toy_Write (Some a) q b =
     (if a_hecToken a = [] then (Returns (Some ''401 Unauthorized''), b)
      else (Returns None, b @ [q]))"

definition toy_env :: "(client_args option, string, string, string, string list) env" where
  "toy_env =
     \<lparr>snappy_Decode = untag CHR ''s'' ''snappy: corrupt input'',
      snappy_Encode = (#) CHR ''s'',
      Unmarshal_ReadRequest = untag CHR ''q'' ''proto: bad wiretype'',
      Unmarshal_WriteRequest = untag CHR ''w'' ''proto: bad wiretype'',
      Marshal_ReadResponse = Inr \<circ> (#) CHR ''r'',
      NewClient = toy_NewClient,
      client_Read = toy_Read,
      client_Write = toy_Write\<rparr>"

definition toy_Config :: Config where
  "toy_Config = default_Config\<lparr>SplunkHECToken := ''token''\<rparr>"

definition toy_logger :: logger where
  "toy_logger = loadLogger toy_Config"

definition world0 :: "(client_args option, string, string, string list) world" where
  "world0 =
     \<lparr>ReadRequestCounter = 0, WriteRequestCounter = 0, logged = [], calls = [], backend = []\<rparr>"

definition request :: "bytes \<Rightarrow> Request" where
  "request b = \<lparr>Method = ''POST'', Body = Inr b, Authorization = None\<rparr>"

definition broken_Config :: Config where
  "broken_Config = toy_Config\<lparr>SplunkUrl := ''''\<rparr>"

text \<open>The configuration after \<^verbatim>\<open>-timeout 9223372037\<close>.\<close>

definition overflow_Config :: Config where
  "overflow_Config = default_Config\<lparr>TimeoutSeconds := 9223372037\<rparr>"

section \<open>Auxiliary facts\<close>

lemma Log_fields [simp]:
  "ReadRequestCounter (Log l lv kvs s) = ReadRequestCounter s"
  "WriteRequestCounter (Log l lv kvs s) = WriteRequestCounter s"
  "calls (Log l lv kvs s) = calls s"
  "backend (Log l lv kvs s) = backend s"
  by (simp_all add: Log_def)

lemma Log_logged:
  "lv \<noteq> LevelDebug \<Longrightarrow> logged (Log l lv kvs s) = logged s @ [(lv, kvs)]"
  by (cases lv) (simp_all add: Log_def)

lemma http_Error_status:
  "status (http_Error msg code (new_ResponseWriter fs)) = Some code"
  by (simp add: http_Error_def rw_Write_def WriteHeader_def Header_Set_def new_ResponseWriter_def
      status_def Let_def split: list.splits option.splits)

lemma http_Error_written:
  "first_fault fs = None \<Longrightarrow> written (http_Error msg code (new_ResponseWriter fs)) = msg @ [CHR 0x0A]"
  by (cases fs) (simp_all add: http_Error_def rw_Write_def WriteHeader_def Header_Set_def
      new_ResponseWriter_def Let_def split: list.splits option.splits)

lemma read_io_error:
  "Body r = Inl e \<Longrightarrow>
   handle_read env config l r w s =
     (Log l LevelError [(''msg'', Str ''Read error''), (''err'', Str e)] s,
      http_Error e StatusInternalServerError w, Done)"
  by (simp add: handle_read_def)

lemma read_snappy_error:
  "Body r = Inr c \<Longrightarrow> snappy_Decode env c = Inl e \<Longrightarrow>
   handle_read env config l r w s =
     (Log l LevelError [(''msg'', Str ''Decode error''), (''err'', Str e)] s,
      http_Error e StatusBadRequest w, Done)"
  by (simp add: handle_read_def)

lemma read_proto_error:
  "Body r = Inr c \<Longrightarrow> snappy_Decode env c = Inr b \<Longrightarrow> Unmarshal_ReadRequest env b = Inl e \<Longrightarrow>
   handle_read env config l r w s =
     (Log l LevelError [(''msg'', Str ''Unmarshal error''), (''err'', Str e)]
        (s\<lparr>ReadRequestCounter := ReadRequestCounter s + 1\<rparr>),
      http_Error e StatusBadRequest w, Done)"
  by (simp add: handle_read_def)

text \<open>The state a decoded read request leaves behind, whatever the call returned.\<close>

lemma read_forwarded_world:
  assumes "Body r = Inr c" "snappy_Decode env c = Inr b" "Unmarshal_ReadRequest env b = Inr req"
    and "BasicAuth r = (u, p, ok)"
    and "NewClient env (read_args config l u p) = (h, cerr)"
    and "client_Read env h req (backend s) = (res, bk)"
  shows "ReadRequestCounter (fst (handle_read env config l r w s)) = ReadRequestCounter s + 1"
    and "WriteRequestCounter (fst (handle_read env config l r w s)) = WriteRequestCounter s"
    and "calls (fst (handle_read env config l r w s)) =
           calls s @ [NewClientCall (read_args config l u p), ReadCall h req]"
    and "backend (fst (handle_read env config l r w s)) = bk"
  using assms
  by (simp_all add: handle_read_def Let_def
      split: outcome.splits sum.splits prod.splits option.splits)

lemma read_panics:
  assumes "Body r = Inr c" "snappy_Decode env c = Inr b" "Unmarshal_ReadRequest env b = Inr req"
    and "BasicAuth r = (u, p, ok)"
    and "NewClient env (read_args config l u p) = (h, cerr)"
    and "client_Read env h req (backend s) = (Panics, bk)"
  shows "snd (handle_read env config l r w s) = (w, Panicked)"
  using assms by (simp add: handle_read_def Let_def)

lemma read_backend_error:
  assumes "Body r = Inr c" "snappy_Decode env c = Inr b" "Unmarshal_ReadRequest env b = Inr req"
    and "BasicAuth r = (u, p, ok)"
    and "NewClient env (read_args config l u p) = (h, cerr)"
    and "client_Read env h req (backend s) = (Returns (Inl e), bk)"
  shows "snd (handle_read env config l r w s) = (http_Error e StatusInternalServerError w, Done)"
  using assms by (simp add: handle_read_def Let_def)

lemma read_marshal_error:
  assumes "Body r = Inr c" "snappy_Decode env c = Inr b" "Unmarshal_ReadRequest env b = Inr req"
    and "BasicAuth r = (u, p, ok)"
    and "NewClient env (read_args config l u p) = (h, cerr)"
    and "client_Read env h req (backend s) = (Returns (Inr resp), bk)"
    and "Marshal_ReadResponse env resp = Inl e"
  shows "snd (handle_read env config l r w s) = (http_Error e StatusInternalServerError w, Done)"
  using assms by (simp add: handle_read_def Let_def)

lemma read_replied:
  assumes "Body r = Inr c" "snappy_Decode env c = Inr b" "Unmarshal_ReadRequest env b = Inr req"
    and "BasicAuth r = (u, p, ok)"
    and "NewClient env (read_args config l u p) = (h, cerr)"
    and "client_Read env h req (backend s) = (Returns (Inr resp), bk)"
    and "Marshal_ReadResponse env resp = Inr data"
  shows "status (fst (snd (handle_read env config l r (new_ResponseWriter fs) s))) = Some 200"
    and "sent_header (fst (snd (handle_read env config l r (new_ResponseWriter fs) s))) =
           Some [''Content-Type'' \<mapsto> ''application/x-protobuf'', ''Content-Encoding'' \<mapsto> ''snappy'']"
    and "first_fault fs = None \<Longrightarrow>
         written (fst (snd (handle_read env config l r (new_ResponseWriter fs) s))) =
           snappy_Encode env data"
    and "snd (snd (handle_read env config l r (new_ResponseWriter fs) s)) = Done"
  using assms
  by (cases fs;
      simp add: handle_read_def Let_def rw_Write_def WriteHeader_def Header_Set_def
        new_ResponseWriter_def http_Error_def status_def sent_header_def
        split: option.splits list.splits)+


lemma write_io_error:
  "Body r = Inl e \<Longrightarrow>
   handle_write env l wc r w s =
     (Log l LevelError [(''msg'', Str ''Read error''), (''err'', Str e)] s,
      http_Error e StatusInternalServerError w, Done)"
  by (simp add: handle_write_def)

lemma write_snappy_error:
  "Body r = Inr c \<Longrightarrow> snappy_Decode env c = Inl e \<Longrightarrow>
   handle_write env l wc r w s =
     (Log l LevelError [(''msg'', Str ''Decode error''), (''err'', Str e)] s,
      http_Error e StatusBadRequest w, Done)"
  by (simp add: handle_write_def)

lemma write_proto_error:
  "Body r = Inr c \<Longrightarrow> snappy_Decode env c = Inr b \<Longrightarrow> Unmarshal_WriteRequest env b = Inl e \<Longrightarrow>
   handle_write env l wc r w s =
     (Log l LevelError [(''msg'', Str ''Unmarshal error''), (''err'', Str e)]
        (s\<lparr>WriteRequestCounter := WriteRequestCounter s + 1\<rparr>),
      http_Error e StatusBadRequest w, Done)"
  by (simp add: handle_write_def)

lemma write_forwarded_world:
  assumes "Body r = Inr c" "snappy_Decode env c = Inr b" "Unmarshal_WriteRequest env b = Inr req"
    and "client_Write env wc req (backend s) = (res, bk)"
  shows "WriteRequestCounter (fst (handle_write env l wc r w s)) = WriteRequestCounter s + 1"
    and "ReadRequestCounter (fst (handle_write env l wc r w s)) = ReadRequestCounter s"
    and "calls (fst (handle_write env l wc r w s)) = calls s @ [WriteCall wc req]"
    and "backend (fst (handle_write env l wc r w s)) = bk"
  using assms
  by (simp_all add: handle_write_def Let_def
      split: outcome.splits sum.splits prod.splits option.splits)

lemma write_panics:
  assumes "Body r = Inr c" "snappy_Decode env c = Inr b" "Unmarshal_WriteRequest env b = Inr req"
    and "client_Write env wc req (backend s) = (Panics, bk)"
  shows "snd (handle_write env l wc r w s) = (w, Panicked)"
  using assms by (simp add: handle_write_def Let_def)

lemma write_backend_error:
  assumes "Body r = Inr c" "snappy_Decode env c = Inr b" "Unmarshal_WriteRequest env b = Inr req"
    and "client_Write env wc req (backend s) = (Returns (Some e), bk)"
  shows "snd (handle_write env l wc r w s) = (http_Error e StatusInternalServerError w, Done)"
  using assms by (simp add: handle_write_def Let_def)

lemma write_acknowledged:
  assumes "Body r = Inr c" "snappy_Decode env c = Inr b" "Unmarshal_WriteRequest env b = Inr req"
    and "client_Write env wc req (backend s) = (Returns None, bk)"
  shows "status (fst (snd (handle_write env l wc r (new_ResponseWriter fs) s))) = Some 200"
    and "snd (snd (handle_write env l wc r (new_ResponseWriter fs) s)) = Done"
    and "first_fault fs = None \<Longrightarrow>
         written (fst (snd (handle_write env l wc r (new_ResponseWriter fs) s))) = ''ok'' \<and>
         logged (fst (handle_write env l wc r (new_ResponseWriter fs) s)) = logged s"
    and "first_fault fs = Some e \<Longrightarrow>
         written (fst (snd (handle_write env l wc r (new_ResponseWriter fs) s))) = [] \<and>
         logged (fst (handle_write env l wc r (new_ResponseWriter fs) s)) =
           logged s @ [(LevelError, [(''action'', Str ''write''), (''err'', Str e)])]"
  using assms
  by (cases fs;
      simp add: handle_write_def Let_def rw_Write_def WriteHeader_def new_ResponseWriter_def
        status_def Log_def split: option.splits list.splits)+

lemma timeout_exact:
  fixes n :: "64 word"
  assumes "- 9223372036 \<le> sint n" and "sint n \<le> 9223372036"
  shows "sint (time_Second * n) = 1000000000 * sint n"
proof -
  have s: "sint time_Second = 1000000000"
    by (simp add: time_Second_def)
  have "sint (time_Second * n) = signed_take_bit 63 (sint time_Second * sint n)"
    by (simp add: sint_word_ariths)
  also have "\<dots> = sint time_Second * sint n"
    by (rule signed_take_bit_int_eq_self) (use assms s in simp_all)
  finally show ?thesis
    using s by simp
qed

subsection \<open>Facts about the server loop\<close>




lemma handle_read_ignores_construction_error:
  "handle_read (env\<lparr>NewClient := \<lambda>a. (fst (NewClient env a), None)\<rparr>) config l r w s =
   handle_read env config l r w s"
  by (simp add: handle_read_def Let_def case_prod_beta
      cong: sum.case_cong outcome.case_cong option.case_cong)

lemma handle_write_ignores_construction_error:
  "handle_write (env\<lparr>NewClient := f\<rparr>) l wc r w s = handle_write env l wc r w s"
  by (simp add: handle_write_def cong: sum.case_cong outcome.case_cong option.case_cong)

lemma serve_ignores_construction_error:
  "serve (env\<lparr>NewClient := \<lambda>a. (fst (NewClient env a), None)\<rparr>) config l wc arrivals s =
   serve env config l wc arrivals s"
proof (induction arrivals arbitrary: s)
  case Nil
  show ?case by simp
next
  case (Cons a arrivals)
  obtain rt r fs where a: "a = (rt, r, fs)"
    by (cases a)
  show ?case
    by (cases rt)
      (simp_all only: a serve.simps route.case Cons.IH
         handle_read_ignores_construction_error handle_write_ignores_construction_error)
qed

text \<open>What one handler run adds to the record of calls.\<close>

lemma handle_write_calls:
  "\<exists>t. calls (fst (handle_write env l wc r w s)) = calls s @ t \<and>
       (\<forall>h q. WriteCall h q \<in> set t \<longrightarrow> h = wc) \<and> filter is_NewClientCall t = []"
  by (simp add: handle_write_def Let_def
      split: sum.splits prod.splits outcome.splits option.splits)

lemma handle_read_calls:
  "\<exists>t. calls (fst (handle_read env config l r w s)) = calls s @ t \<and>
       (\<forall>h q. WriteCall h q \<notin> set t) \<and>
       length (filter is_NewClientCall t) = (if read_decodes env (ReadRoute, r, fs) then 1 else 0)"
  by (simp add: handle_read_def Let_def
      split: sum.splits prod.splits outcome.splits option.splits)

lemma serve_calls:
  "\<exists>t. calls (fst (serve env config l wc arrivals s)) = calls s @ t \<and>
       (\<forall>h q. WriteCall h q \<in> set t \<longrightarrow> h = wc) \<and>
       length (filter is_NewClientCall t) = length (filter (read_decodes env) arrivals)"
proof (induction arrivals arbitrary: s)
  case Nil
  show ?case by simp
next
  case (Cons a arrivals)
  obtain rt r fs where a: "a = (rt, r, fs)"
    by (cases a)
  define step where
    "step = (case rt of
               ReadRoute \<Rightarrow> handle_read env config l r (new_ResponseWriter fs) s
             | WriteRoute \<Rightarrow> handle_write env l wc r (new_ResponseWriter fs) s)"
  have run: "fst (serve env config l wc (a # arrivals) s) =
             fst (serve env config l wc arrivals (fst step))"
    by (simp add: a step_def split: prod.splits)
  obtain t1 where t1: "calls (fst step) = calls s @ t1"
      "\<forall>h q. WriteCall h q \<in> set t1 \<longrightarrow> h = wc"
      "length (filter is_NewClientCall t1) = (if read_decodes env a then 1 else 0)"
  proof (cases rt)
    case ReadRoute
    with handle_read_calls [of env config l r "new_ResponseWriter fs" s fs] that show ?thesis
      unfolding step_def a by auto
  next
    case WriteRoute
    with handle_write_calls [of env l wc r "new_ResponseWriter fs" s] that show ?thesis
      unfolding step_def a by auto
  qed
  from Cons.IH [of "fst step"] obtain t2 where t2:
      "calls (fst (serve env config l wc arrivals (fst step))) = calls (fst step) @ t2"
      "\<forall>h q. WriteCall h q \<in> set t2 \<longrightarrow> h = wc"
      "length (filter is_NewClientCall t2) = length (filter (read_decodes env) arrivals)"
    by blast
  show ?case
  proof (intro exI conjI)
    show "calls (fst (serve env config l wc (a # arrivals) s)) = calls s @ (t1 @ t2)"
      by (simp add: run t1(1) t2(1))
    show "\<forall>h q. WriteCall h q \<in> set (t1 @ t2) \<longrightarrow> h = wc"
      using t1(2) t2(2) by auto
    show "length (filter is_NewClientCall (t1 @ t2)) =
          length (filter (read_decodes env) (a # arrivals))"
      using t1(3) t2(3) by simp
  qed
qed

lemma main_calls:
  "\<exists>t. calls (fst (main env config arrivals lerr s)) =
         calls s @ NewClientCall (write_args config (loadLogger config)) # t \<and>
       (\<forall>h q. WriteCall h q \<in> set t \<longrightarrow>
          h = fst (NewClient env (write_args config (loadLogger config)))) \<and>
       length (filter is_NewClientCall t) = length (filter (read_decodes env) arrivals)"
proof -
  define l where "l = loadLogger config"
  define wc where "wc = fst (NewClient env (write_args config l))"
  define s2 where
    "s2 = Log l LevelInfo
            [(''msg'', Str ''starting server...''), (''listen'', Str (ListenAddr config))]
            (s\<lparr>calls := calls s @ [NewClientCall (write_args config l)]\<rparr>)"
  have m: "calls (fst (main env config arrivals lerr s)) =
           calls (fst (serve env config l wc arrivals s2))"
    by (simp add: main_def Let_def l_def wc_def s2_def split: prod.splits)
  have s2: "calls s2 = calls s @ [NewClientCall (write_args config l)]"
    by (simp add: s2_def)
  from serve_calls [of env config l wc arrivals s2] show ?thesis
    unfolding m s2 l_def [symmetric] wc_def [symmetric] by auto
qed


lemma main_ignores_construction_error:
  "main (env\<lparr>NewClient := \<lambda>a. (fst (NewClient env a), None)\<rparr>) config arrivals lerr s =
   main env config arrivals lerr s"
  by (simp add: main_def Let_def serve_ignores_construction_error split: prod.splits)

lemma main_added:
  assumes "main env config arrivals lerr s = (s', outs)"
  shows "\<exists>t. added s s' = NewClientCall (write_args config (loadLogger config)) # t \<and>
           (\<forall>h q. WriteCall h q \<in> set t \<longrightarrow>
              h = fst (NewClient env (write_args config (loadLogger config)))) \<and>
           length (filter is_NewClientCall t) = length (filter (read_decodes env) arrivals)"
proof -
  from main_calls [of env config arrivals lerr s] obtain t where
    t: "calls (fst (main env config arrivals lerr s)) =
          calls s @ NewClientCall (write_args config (loadLogger config)) # t"
      "\<forall>h q. WriteCall h q \<in> set t \<longrightarrow>
          h = fst (NewClient env (write_args config (loadLogger config)))"
      "length (filter is_NewClientCall t) = length (filter (read_decodes env) arrivals)"
    by blast
  have "added s s' = NewClientCall (write_args config (loadLogger config)) # t"
    using t(1) assms by (simp add: added_def)
  with t(2,3) show ?thesis
    by blast
qed

subsection \<open>Evaluation\<close>

lemma triple: "x = (fst x, fst (snd x), snd (snd x))"
  by simp

lemmas toy_defs =
  toy_env_def toy_Config_def broken_Config_def default_Config_def
  toy_logger_def loadLogger_def world0_def request_def toy_NewClient_def

lemmas run_defs =
  handle_read_def handle_write_def read_args_def write_args_def BasicAuth_def Log_def
  http_Error_def rw_Write_def WriteHeader_def Header_Set_def new_ResponseWriter_def
  StatusBadRequest_def StatusInternalServerError_def status_def sent_header_def time_Second_def
  Let_def

section \<open>The claims\<close>

subsection \<open>Request counters\<close>

text \<open>
  C1 (amended). On either route, a request whose body is read but does not decompress
  leaves the request counters as they were; a request whose body decompresses adds
  exactly one to the counter of its route, whatever the parsing of the message and
  the backend call do afterwards.
\<close>

theorem counter_follows_decompression:
  assumes "Body r = Inr compressed"
    and "handle_read env config l r w s = (s_r, w_r, x_r)"
    and "handle_write env l wc r w s = (s_w, w_w, x_w)"
  shows "(snappy_Decode env compressed = Inl e \<longrightarrow>
            ReadRequestCounter s_r = ReadRequestCounter s \<and>
            WriteRequestCounter s_w = WriteRequestCounter s) \<and>
         (snappy_Decode env compressed = Inr reqBuf \<longrightarrow>
            ReadRequestCounter s_r = ReadRequestCounter s + 1 \<and>
            WriteRequestCounter s_w = WriteRequestCounter s + 1)"
proof -
  have r: "s_r = fst (handle_read env config l r w s)"
    and w: "s_w = fst (handle_write env l wc r w s)"
    using assms(2,3) by simp_all
  have bad: "ReadRequestCounter s_r = ReadRequestCounter s \<and>
             WriteRequestCounter s_w = WriteRequestCounter s"
    if "snappy_Decode env compressed = Inl e"
    using assms(1) that by (simp add: r w read_snappy_error write_snappy_error)
  have good: "ReadRequestCounter s_r = ReadRequestCounter s + 1 \<and>
              WriteRequestCounter s_w = WriteRequestCounter s + 1"
    if "snappy_Decode env compressed = Inr reqBuf"
    using assms(1) that unfolding r w
    by (simp add: handle_read_def handle_write_def Let_def
        split: sum.splits prod.splits outcome.splits option.splits)
  from bad good show ?thesis
    by blast
qed

theorem counter_follows_decompression_witness:
  "Body (request ''sqabc'') = Inr ''sqabc'' \<and>
   snappy_Decode toy_env ''sqabc'' = Inr ''qabc'' \<and>
   ReadRequestCounter
     (fst (handle_read toy_env toy_Config toy_logger (request ''sqabc'')
        (new_ResponseWriter []) world0)) = ReadRequestCounter world0 + 1 \<and>
   WriteRequestCounter
     (fst (handle_write toy_env toy_logger None (request ''sqabc'')
        (new_ResponseWriter []) world0)) = WriteRequestCounter world0 + 1"
proof -
  have b: "Body (request ''sqabc'') = Inr ''sqabc''"
    by (simp add: request_def)
  have d: "snappy_Decode toy_env ''sqabc'' = Inr ''qabc''"
    by (simp add: toy_env_def)
  from counter_follows_decompression [OF b triple triple, where env = toy_env and reqBuf = "''qabc''"] b d
  show ?thesis
    by simp
qed

text \<open>
  The claim as written fails on a body that decompresses and does not parse: the
  request is answered 400 and is counted all the same.
\<close>

theorem malformed_message_is_counted:
  "snappy_Decode toy_env ''sjunk'' = Inr ''junk'' \<and>
   Unmarshal_ReadRequest toy_env ''junk'' = Inl ''proto: bad wiretype'' \<and>
   Unmarshal_WriteRequest toy_env ''junk'' = Inl ''proto: bad wiretype'' \<and>
   ReadRequestCounter
     (fst (handle_read toy_env toy_Config toy_logger (request ''sjunk'')
        (new_ResponseWriter []) world0)) = ReadRequestCounter world0 + 1 \<and>
   WriteRequestCounter
     (fst (handle_write toy_env toy_logger None (request ''sjunk'')
        (new_ResponseWriter []) world0)) = WriteRequestCounter world0 + 1 \<and>
   status (fst (snd (handle_read toy_env toy_Config toy_logger (request ''sjunk'')
        (new_ResponseWriter []) world0))) = Some 400"
  by (simp add: toy_defs run_defs)

subsection \<open>A failed construction on the read path\<close>

text \<open>
  C2 (amended). For every \<^verbatim>\<open>/read\<close> request that decodes, the handler drops the
  error of the construction and invokes \<^verbatim>\<open>Read\<close> exactly once on whatever handle the
  construction returned, a failed one included: it behaves as if the construction
  had reported no error. The response is 500, with the message of \<^verbatim>\<open>Read\<close>, when that
  call returns an error; when the call panics the handler writes nothing.
\<close>

theorem read_uses_the_handle_of_any_construction:
  assumes "Body r = Inr compressed"
    and "snappy_Decode env compressed = Inr reqBuf"
    and "Unmarshal_ReadRequest env reqBuf = Inr req"
    and "BasicAuth r = (u, p, ok)"
    and "NewClient env (read_args config l u p) = (h, cerr)"
    and "client_Read env h req (backend s) = (res, bk)"
    and "handle_read env config l r (new_ResponseWriter fs) s = (s', w', x)"
  shows "calls s' = calls s @ [NewClientCall (read_args config l u p), ReadCall h req] \<and>
         handle_read (env\<lparr>NewClient := \<lambda>a. (fst (NewClient env a), None)\<rparr>) config l r
           (new_ResponseWriter fs) s = (s', w', x) \<and>
         (res = Returns (Inl e) \<longrightarrow>
            x = Done \<and> status w' = Some 500 \<and>
            (first_fault fs = None \<longrightarrow> written w' = e @ [CHR 0x0A])) \<and>
         (res = Panics \<longrightarrow> x = Panicked \<and> w' = new_ResponseWriter fs)"
proof -
  have s': "s' = fst (handle_read env config l r (new_ResponseWriter fs) s)"
    and out: "(w', x) = snd (handle_read env config l r (new_ResponseWriter fs) s)"
    using assms(7) by simp_all
  have "calls s' = calls s @ [NewClientCall (read_args config l u p), ReadCall h req]"
    unfolding s' by (rule read_forwarded_world(3) [OF assms(1-6)])
  moreover have "handle_read (env\<lparr>NewClient := \<lambda>a. (fst (NewClient env a), None)\<rparr>) config l r
      (new_ResponseWriter fs) s = (s', w', x)"
    by (simp only: handle_read_ignores_construction_error assms(7))
  moreover have "x = Done \<and> status w' = Some 500 \<and>
      (first_fault fs = None \<longrightarrow> written w' = e @ [CHR 0x0A])"
    if "res = Returns (Inl e)"
    using out read_backend_error [OF assms(1-5) assms(6) [unfolded that]]
    by (simp add: http_Error_status http_Error_written StatusInternalServerError_def)
  moreover have "x = Panicked \<and> w' = new_ResponseWriter fs"
    if "res = Panics"
    using out read_panics [OF assms(1-5) assms(6) [unfolded that]]
    by simp
  ultimately show ?thesis
    by blast
qed

theorem read_uses_the_handle_of_any_construction_witness:
  "NewClient toy_env (read_args broken_Config toy_logger '''' '''') =
     (None, Some ''parse : empty url'') \<and>
   client_Read toy_env None ''up'' (backend world0) = (Panics, []) \<and>
   calls (fst (handle_read toy_env broken_Config toy_logger (request ''squp'')
      (new_ResponseWriter []) world0)) =
     calls world0 @
       [NewClientCall (read_args broken_Config toy_logger '''' ''''), ReadCall None ''up''] \<and>
   snd (handle_read toy_env broken_Config toy_logger (request ''squp'')
      (new_ResponseWriter []) world0) = (new_ResponseWriter [], Panicked)"
proof -
  have b: "Body (request ''squp'') = Inr ''squp''"
    and a: "BasicAuth (request ''squp'') = ('''', '''', False)"
    by (simp_all add: request_def BasicAuth_def)
  have d: "snappy_Decode toy_env ''squp'' = Inr ''qup''"
    and u: "Unmarshal_ReadRequest toy_env ''qup'' = Inr ''up''"
    and n: "NewClient toy_env (read_args broken_Config toy_logger '''' '''') =
              (None, Some ''parse : empty url'')"
    and c: "client_Read toy_env None ''up'' (backend world0) = (Panics, [])"
    by (simp_all add: toy_defs read_args_def)
  from read_uses_the_handle_of_any_construction [OF b d u a n c triple, where fs = "[]"] n c
  show ?thesis
    by (simp add: prod_eq_iff)
qed

text \<open>
  The claim as written fails where the construction fails: \<^verbatim>\<open>Read\<close> is invoked on the
  handle that came with the error, and no status 500 follows from the failure itself
  (with this double the call on \<^verbatim>\<open>nil\<close> panics and nothing is written).
\<close>

theorem read_is_invoked_on_a_failed_construction:
  "snd (NewClient toy_env (read_args broken_Config toy_logger '''' '''')) =
     Some ''parse : empty url'' \<and>
   fst (NewClient toy_env (read_args broken_Config toy_logger '''' '''')) = None \<and>
   ReadCall None ''up'' \<in>
     set (calls (fst (handle_read toy_env broken_Config toy_logger (request ''squp'')
        (new_ResponseWriter []) world0))) \<and>
   status (fst (snd (handle_read toy_env broken_Config toy_logger (request ''squp'')
        (new_ResponseWriter []) world0))) \<noteq> Some 500"
  by (simp add: toy_defs run_defs)

subsection \<open>Decoding failures stop before the backend\<close>

text \<open>
  C3. On either route, when the body is read and decoding fails, in the
  decompression or in the parsing of the message, the handler returns without any
  call to package \<^verbatim>\<open>storage\<close>: the record of calls and the store are as before.
\<close>

theorem no_backend_call_when_decoding_fails:
  assumes "Body r = Inr compressed"
    and "handle_read env config l r w s = (s_r, w_r, x_r)"
    and "handle_write env l wc r w s = (s_w, w_w, x_w)"
  shows "((snappy_Decode env compressed = Inl e \<or>
           (snappy_Decode env compressed = Inr reqBuf \<and>
            Unmarshal_ReadRequest env reqBuf = Inl e)) \<longrightarrow>
            calls s_r = calls s \<and> backend s_r = backend s \<and> x_r = Done) \<and>
         ((snappy_Decode env compressed = Inl e \<or>
           (snappy_Decode env compressed = Inr reqBuf \<and>
            Unmarshal_WriteRequest env reqBuf = Inl e)) \<longrightarrow>
            calls s_w = calls s \<and> backend s_w = backend s \<and> x_w = Done)"
proof -
  have r: "(s_r, w_r, x_r) = handle_read env config l r w s"
    and w: "(s_w, w_w, x_w) = handle_write env l wc r w s"
    using assms(2,3) by simp_all
  have "calls s_r = calls s \<and> backend s_r = backend s \<and> x_r = Done"
    if "snappy_Decode env compressed = Inl e"
    using r by (simp add: read_snappy_error [OF assms(1) that])
  moreover have "calls s_r = calls s \<and> backend s_r = backend s \<and> x_r = Done"
    if "snappy_Decode env compressed = Inr reqBuf" "Unmarshal_ReadRequest env reqBuf = Inl e"
    using r by (simp add: read_proto_error [OF assms(1) that])
  moreover have "calls s_w = calls s \<and> backend s_w = backend s \<and> x_w = Done"
    if "snappy_Decode env compressed = Inl e"
    using w by (simp add: write_snappy_error [OF assms(1) that])
  moreover have "calls s_w = calls s \<and> backend s_w = backend s \<and> x_w = Done"
    if "snappy_Decode env compressed = Inr reqBuf" "Unmarshal_WriteRequest env reqBuf = Inl e"
    using w by (simp add: write_proto_error [OF assms(1) that])
  ultimately show ?thesis
    by blast
qed

theorem no_backend_call_when_decoding_fails_witness:
  "Body (request ''sjunk'') = Inr ''sjunk'' \<and>
   snappy_Decode toy_env ''sjunk'' = Inr ''junk'' \<and>
   Unmarshal_ReadRequest toy_env ''junk'' = Inl ''proto: bad wiretype'' \<and>
   Unmarshal_WriteRequest toy_env ''junk'' = Inl ''proto: bad wiretype'' \<and>
   calls (fst (handle_read toy_env toy_Config toy_logger (request ''sjunk'')
      (new_ResponseWriter []) world0)) = calls world0 \<and>
   backend (fst (handle_write toy_env toy_logger None (request ''sjunk'')
      (new_ResponseWriter []) world0)) = backend world0"
proof -
  have b: "Body (request ''sjunk'') = Inr ''sjunk''"
    by (simp add: request_def)
  have d: "snappy_Decode toy_env ''sjunk'' = Inr ''junk''"
    "Unmarshal_ReadRequest toy_env ''junk'' = Inl ''proto: bad wiretype''"
    "Unmarshal_WriteRequest toy_env ''junk'' = Inl ''proto: bad wiretype''"
    by (simp_all add: toy_env_def)
  from no_backend_call_when_decoding_fails
    [OF b triple triple, where env = toy_env and e = "''proto: bad wiretype''" and reqBuf = "''junk''"] b d
  show ?thesis
    by simp
qed

subsection \<open>Credentials\<close>



subsection \<open>Failure classes and statuses\<close>

text \<open>
  C5. On either route the failures map to statuses by class: a body that cannot be
  read gives 500; a payload that does not decompress or a message that does not
  parse gives 400; a backend call that returns an error gives 500, and the body
  written is the message of that error followed by a newline. Nothing is tried
  again: a request that fails before the backend makes no call to package
  \<^verbatim>\<open>storage\<close>, and a failed backend call is the only one its request makes.
\<close>

theorem failure_statuses:
  assumes "handle_read env config l r (new_ResponseWriter fs) s = (s_r, w_r, x_r)"
    and "handle_write env l wc r (new_ResponseWriter fs) s = (s_w, w_w, x_w)"
  shows "(Body r = Inl e \<longrightarrow>
            status w_r = Some 500 \<and> status w_w = Some 500 \<and>
            calls s_r = calls s \<and> calls s_w = calls s) \<and>
         (Body r = Inr compressed \<and> snappy_Decode env compressed = Inl e \<longrightarrow>
            status w_r = Some 400 \<and> status w_w = Some 400 \<and>
            calls s_r = calls s \<and> calls s_w = calls s) \<and>
         (Body r = Inr compressed \<and> snappy_Decode env compressed = Inr reqBuf \<and>
          Unmarshal_ReadRequest env reqBuf = Inl e \<longrightarrow>
            status w_r = Some 400 \<and> calls s_r = calls s) \<and>
         (Body r = Inr compressed \<and> snappy_Decode env compressed = Inr reqBuf \<and>
          Unmarshal_WriteRequest env reqBuf = Inl e \<longrightarrow>
            status w_w = Some 400 \<and> calls s_w = calls s) \<and>
         (Body r = Inr compressed \<and> snappy_Decode env compressed = Inr reqBuf \<and>
          Unmarshal_ReadRequest env reqBuf = Inr req \<and> BasicAuth r = (u, p, ok) \<and>
          NewClient env (read_args config l u p) = (h, cerr) \<and>
          client_Read env h req (backend s) = (Returns (Inl e), bk) \<longrightarrow>
            status w_r = Some 500 \<and>
            (first_fault fs = None \<longrightarrow> written w_r = e @ [CHR 0x0A]) \<and>
            calls s_r = calls s @ [NewClientCall (read_args config l u p), ReadCall h req]) \<and>
         (Body r = Inr compressed \<and> snappy_Decode env compressed = Inr reqBuf \<and>
          Unmarshal_WriteRequest env reqBuf = Inr wreq \<and>
          client_Write env wc wreq (backend s) = (Returns (Some e), bk) \<longrightarrow>
            status w_w = Some 500 \<and>
            (first_fault fs = None \<longrightarrow> written w_w = e @ [CHR 0x0A]) \<and>
            calls s_w = calls s @ [WriteCall wc wreq])"
proof -
  note st = http_Error_status http_Error_written
    StatusBadRequest_def StatusInternalServerError_def
  have r: "(s_r, w_r, x_r) = handle_read env config l r (new_ResponseWriter fs) s"
    and w: "(s_w, w_w, x_w) = handle_write env l wc r (new_ResponseWriter fs) s"
    using assms by simp_all
  have sr: "s_r = fst (handle_read env config l r (new_ResponseWriter fs) s)"
    and sw: "s_w = fst (handle_write env l wc r (new_ResponseWriter fs) s)"
    and or: "(w_r, x_r) = snd (handle_read env config l r (new_ResponseWriter fs) s)"
    and ow: "(w_w, x_w) = snd (handle_write env l wc r (new_ResponseWriter fs) s)"
    using assms by simp_all
  have io: "status w_r = Some 500 \<and> status w_w = Some 500 \<and>
      calls s_r = calls s \<and> calls s_w = calls s"
    if "Body r = Inl e"
    using r w by (simp add: read_io_error [OF that] write_io_error [OF that] st)
  have snappy: "status w_r = Some 400 \<and> status w_w = Some 400 \<and>
      calls s_r = calls s \<and> calls s_w = calls s"
    if "Body r = Inr compressed" "snappy_Decode env compressed = Inl e"
    using r w by (simp add: read_snappy_error [OF that] write_snappy_error [OF that] st)
  have proto_r: "status w_r = Some 400 \<and> calls s_r = calls s"
    if "Body r = Inr compressed" "snappy_Decode env compressed = Inr reqBuf"
      "Unmarshal_ReadRequest env reqBuf = Inl e"
    using r by (simp add: read_proto_error [OF that] st)
  have proto_w: "status w_w = Some 400 \<and> calls s_w = calls s"
    if "Body r = Inr compressed" "snappy_Decode env compressed = Inr reqBuf"
      "Unmarshal_WriteRequest env reqBuf = Inl e"
    using w by (simp add: write_proto_error [OF that] st)
  have backend_r: "status w_r = Some 500 \<and>
      (first_fault fs = None \<longrightarrow> written w_r = e @ [CHR 0x0A]) \<and>
      calls s_r = calls s @ [NewClientCall (read_args config l u p), ReadCall h req]"
    if "Body r = Inr compressed" "snappy_Decode env compressed = Inr reqBuf"
      "Unmarshal_ReadRequest env reqBuf = Inr req" "BasicAuth r = (u, p, ok)"
      "NewClient env (read_args config l u p) = (h, cerr)"
      "client_Read env h req (backend s) = (Returns (Inl e), bk)"
    using or read_backend_error [OF that, where w = "new_ResponseWriter fs"]
      read_forwarded_world(3) [OF that, where w = "new_ResponseWriter fs"]
    by (simp add: sr st)
  have backend_w: "status w_w = Some 500 \<and>
      (first_fault fs = None \<longrightarrow> written w_w = e @ [CHR 0x0A]) \<and>
      calls s_w = calls s @ [WriteCall wc wreq]"
    if "Body r = Inr compressed" "snappy_Decode env compressed = Inr reqBuf"
      "Unmarshal_WriteRequest env reqBuf = Inr wreq"
      "client_Write env wc wreq (backend s) = (Returns (Some e), bk)"
    using ow write_backend_error [OF that, where l = l and w = "new_ResponseWriter fs"]
      write_forwarded_world(3) [OF that, where l = l and w = "new_ResponseWriter fs"]
    by (simp add: sw st)
  from io snappy proto_r proto_w backend_r backend_w show ?thesis
    by blast
qed

theorem failure_statuses_witness:
  "Body (request ''swup 1.0@1000'') = Inr ''swup 1.0@1000'' \<and>
   snappy_Decode toy_env ''swup 1.0@1000'' = Inr ''wup 1.0@1000'' \<and>
   Unmarshal_WriteRequest toy_env ''wup 1.0@1000'' = Inr ''up 1.0@1000'' \<and>
   client_Write toy_env (Some (write_args default_Config toy_logger)) ''up 1.0@1000''
     (backend world0) = (Returns (Some ''401 Unauthorized''), []) \<and>
   first_fault [] = None \<and>
   status (fst (snd (handle_write toy_env toy_logger
      (Some (write_args default_Config toy_logger)) (request ''swup 1.0@1000'')
      (new_ResponseWriter []) world0))) = Some 500 \<and>
   written (fst (snd (handle_write toy_env toy_logger
      (Some (write_args default_Config toy_logger)) (request ''swup 1.0@1000'')
      (new_ResponseWriter []) world0))) = ''401 Unauthorized'' @ [CHR 0x0A] \<and>
   calls (fst (handle_write toy_env toy_logger
      (Some (write_args default_Config toy_logger)) (request ''swup 1.0@1000'')
      (new_ResponseWriter []) world0)) =
     calls world0 @ [WriteCall (Some (write_args default_Config toy_logger)) ''up 1.0@1000'']"
proof -
  have b: "Body (request ''swup 1.0@1000'') = Inr ''swup 1.0@1000''"
    by (simp add: request_def)
  have d: "snappy_Decode toy_env ''swup 1.0@1000'' = Inr ''wup 1.0@1000''"
    and u: "Unmarshal_WriteRequest toy_env ''wup 1.0@1000'' = Inr ''up 1.0@1000''"
    and c: "client_Write toy_env (Some (write_args default_Config toy_logger)) ''up 1.0@1000''
              (backend world0) = (Returns (Some ''401 Unauthorized''), [])"
    by (simp_all add: toy_defs write_args_def)
  from failure_statuses [OF triple triple, where env = toy_env and fs = "[]"
      and r = "request ''swup 1.0@1000''" and compressed = "''swup 1.0@1000''"
      and reqBuf = "''wup 1.0@1000''" and wreq = "''up 1.0@1000''"
      and wc = "Some (write_args default_Config toy_logger)" and s = world0
      and e = "''401 Unauthorized''" and bk = "[]" and l = toy_logger] b d u c
  show ?thesis
    by simp
qed

subsection \<open>The response of a successful read\<close>

text \<open>
  C7. For every \<^verbatim>\<open>/read\<close> request whose backend call succeeds, with \<open>data\<close> the
  bytes \<^verbatim>\<open>proto.Marshal\<close> returns for the result, the response has status 200 and the
  headers \<^verbatim>\<open>Content-Type: application/x-protobuf\<close> and \<^verbatim>\<open>Content-Encoding: snappy\<close>,
  and the body the connection takes is the snappy compression of \<open>data\<close>.
\<close>

theorem read_success_response:
  assumes "Body r = Inr compressed"
    and "snappy_Decode env compressed = Inr reqBuf"
    and "Unmarshal_ReadRequest env reqBuf = Inr req"
    and "BasicAuth r = (u, p, ok)"
    and "NewClient env (read_args config l u p) = (h, cerr)"
    and "client_Read env h req (backend s) = (Returns (Inr resp), bk)"
    and "Marshal_ReadResponse env resp = Inr data"
    and "handle_read env config l r (new_ResponseWriter fs) s = (s', w', x)"
  shows "status w' = Some 200 \<and>
         sent_header w' =
           Some [''Content-Type'' \<mapsto> ''application/x-protobuf'',
                 ''Content-Encoding'' \<mapsto> ''snappy''] \<and>
         (first_fault fs = None \<longrightarrow> written w' = snappy_Encode env data) \<and>
         x = Done"
proof -
  have w': "w' = fst (snd (handle_read env config l r (new_ResponseWriter fs) s))"
    and x: "x = snd (snd (handle_read env config l r (new_ResponseWriter fs) s))"
    using assms(8) by simp_all
  show ?thesis
    unfolding w' x
    using read_replied [OF assms(1-7), where fs = fs] by blast
qed

theorem read_success_response_witness:
  "client_Read toy_env (Some (read_args toy_Config toy_logger '''' '''')) ''up''
     (backend (world0\<lparr>backend := [''1.0@1000'']\<rparr>)) =
     (Returns (Inr ''1.0@1000''), [''1.0@1000'']) \<and>
   Marshal_ReadResponse toy_env ''1.0@1000'' = Inr ''r1.0@1000'' \<and>
   first_fault [] = None \<and>
   status (fst (snd (handle_read toy_env toy_Config toy_logger (request ''squp'')
      (new_ResponseWriter []) (world0\<lparr>backend := [''1.0@1000'']\<rparr>)))) = Some 200 \<and>
   sent_header (fst (snd (handle_read toy_env toy_Config toy_logger (request ''squp'')
      (new_ResponseWriter []) (world0\<lparr>backend := [''1.0@1000'']\<rparr>)))) =
     Some [''Content-Type'' \<mapsto> ''application/x-protobuf'',
           ''Content-Encoding'' \<mapsto> ''snappy''] \<and>
   written (fst (snd (handle_read toy_env toy_Config toy_logger (request ''squp'')
      (new_ResponseWriter []) (world0\<lparr>backend := [''1.0@1000'']\<rparr>)))) = ''sr1.0@1000''"
proof -
  have b: "Body (request ''squp'') = Inr ''squp''"
    and a: "BasicAuth (request ''squp'') = ('''', '''', False)"
    by (simp_all add: request_def BasicAuth_def)
  have d: "snappy_Decode toy_env ''squp'' = Inr ''qup''"
    and u: "Unmarshal_ReadRequest toy_env ''qup'' = Inr ''up''"
    and n: "NewClient toy_env (read_args toy_Config toy_logger '''' '''') =
              (Some (read_args toy_Config toy_logger '''' ''''), None)"
    and c: "client_Read toy_env (Some (read_args toy_Config toy_logger '''' '''')) ''up''
              (backend (world0\<lparr>backend := [''1.0@1000'']\<rparr>)) =
              (Returns (Inr ''1.0@1000''), [''1.0@1000''])"
    and m: "Marshal_ReadResponse toy_env ''1.0@1000'' = Inr ''r1.0@1000''"
    and e: "snappy_Encode toy_env ''r1.0@1000'' = ''sr1.0@1000''"
    by (simp_all add: toy_defs read_args_def)
  from read_success_response [OF b d u a n c m triple, where fs = "[]"] c m e
  show ?thesis
    by simp
qed

subsection \<open>The acknowledgement of a write\<close>

text \<open>
  C8. For every \<^verbatim>\<open>/write\<close> request whose backend write succeeds the status is 200.
  When the connection takes the write the body is \<^verbatim>\<open>ok\<close> and nothing is logged;
  when that write fails the error is logged at error level and the status stays 200.
\<close>

theorem write_acknowledgement:
  assumes "Body r = Inr compressed"
    and "snappy_Decode env compressed = Inr reqBuf"
    and "Unmarshal_WriteRequest env reqBuf = Inr req"
    and "client_Write env wc req (backend s) = (Returns None, bk)"
    and "handle_write env l wc r (new_ResponseWriter fs) s = (s', w', x)"
  shows "status w' = Some 200 \<and> x = Done \<and>
         (first_fault fs = None \<longrightarrow> written w' = ''ok'' \<and> logged s' = logged s) \<and>
         (first_fault fs = Some e \<longrightarrow>
            written w' = [] \<and>
            logged s' = logged s @ [(LevelError, [(''action'', Str ''write''), (''err'', Str e)])])"
proof -
  have eqs: "s' = fst (handle_write env l wc r (new_ResponseWriter fs) s)"
    "w' = fst (snd (handle_write env l wc r (new_ResponseWriter fs) s))"
    "x = snd (snd (handle_write env l wc r (new_ResponseWriter fs) s))"
    using assms(5) by simp_all
  show ?thesis
    unfolding eqs
    using write_acknowledged [OF assms(1-4), where l = l and fs = fs] by blast
qed

theorem write_acknowledgement_witness:
  "client_Write toy_env (Some (write_args toy_Config toy_logger)) ''up 1.0@1000''
     (backend world0) = (Returns None, [''up 1.0@1000'']) \<and>
   first_fault [Some ''broken pipe''] = Some ''broken pipe'' \<and>
   status (fst (snd (handle_write toy_env toy_logger (Some (write_args toy_Config toy_logger))
      (request ''swup 1.0@1000'') (new_ResponseWriter [Some ''broken pipe'']) world0))) =
     Some 200 \<and>
   logged (fst (handle_write toy_env toy_logger (Some (write_args toy_Config toy_logger))
      (request ''swup 1.0@1000'') (new_ResponseWriter [Some ''broken pipe'']) world0)) =
     logged world0 @
       [(LevelError, [(''action'', Str ''write''), (''err'', Str ''broken pipe'')])] \<and>
   status (fst (snd (handle_write toy_env toy_logger (Some (write_args toy_Config toy_logger))
      (request ''swup 1.0@1000'') (new_ResponseWriter []) world0))) = Some 200 \<and>
   written (fst (snd (handle_write toy_env toy_logger (Some (write_args toy_Config toy_logger))
      (request ''swup 1.0@1000'') (new_ResponseWriter []) world0))) = ''ok''"
proof -
  have b: "Body (request ''swup 1.0@1000'') = Inr ''swup 1.0@1000''"
    by (simp add: request_def)
  have d: "snappy_Decode toy_env ''swup 1.0@1000'' = Inr ''wup 1.0@1000''"
    and u: "Unmarshal_WriteRequest toy_env ''wup 1.0@1000'' = Inr ''up 1.0@1000''"
    and c: "client_Write toy_env (Some (write_args toy_Config toy_logger)) ''up 1.0@1000''
              (backend world0) = (Returns None, [''up 1.0@1000''])"
    by (simp_all add: toy_defs write_args_def)
  from write_acknowledgement
    [OF b d u c triple, where e = "''broken pipe''" and fs = "[Some ''broken pipe'']"]
    write_acknowledgement [OF b d u c triple, where fs = "[]"] c
  show ?thesis
    by simp
qed

subsection \<open>The write client\<close>

text \<open>
  C9 (amended). \<^verbatim>\<open>main\<close> constructs the write client before it serves anything: the
  construction is the first call it makes to package \<^verbatim>\<open>storage\<close>, with empty user and
  password and a timeout of \<^verbatim>\<open>time.Second\<close> times the configured number of seconds,
  which is that many seconds whenever the number lies between -9223372036 and
  9223372036, the range in which its nanoseconds fit an \<^verbatim>\<open>int64\<close>. It is the only
  construction of the run apart from the one each decoded \<^verbatim>\<open>/read\<close> request makes
  for itself, and every write of the run goes through the handle it returned. The
  error it returned has no effect on the run at all.
\<close>

theorem write_client_is_built_once_at_start:
  assumes "main env config arrivals lerr s = (s', outs)"
  shows "take 1 (added s s') = [NewClientCall (write_args config (loadLogger config))] \<and>
         a_user (write_args config (loadLogger config)) = '''' \<and>
         a_password (write_args config (loadLogger config)) = '''' \<and>
         a_timeout (write_args config (loadLogger config)) =
           time_Second * TimeoutSeconds config \<and>
         (- 9223372036 \<le> sint (TimeoutSeconds config) \<and>
          sint (TimeoutSeconds config) \<le> 9223372036 \<longrightarrow>
            sint (a_timeout (write_args config (loadLogger config))) =
              1000000000 * sint (TimeoutSeconds config)) \<and>
         length (filter is_NewClientCall (added s s')) =
           1 + length (filter (read_decodes env) arrivals) \<and>
         (\<forall>h q. WriteCall h q \<in> set (added s s') \<longrightarrow>
            h = fst (NewClient env (write_args config (loadLogger config)))) \<and>
         main (env\<lparr>NewClient := \<lambda>a. (fst (NewClient env a), None)\<rparr>) config arrivals lerr s =
           (s', outs)"
proof -
  from main_added [OF assms] obtain t where
    t: "added s s' = NewClientCall (write_args config (loadLogger config)) # t"
      "\<forall>h q. WriteCall h q \<in> set t \<longrightarrow>
          h = fst (NewClient env (write_args config (loadLogger config)))"
      "length (filter is_NewClientCall t) = length (filter (read_decodes env) arrivals)"
    by blast
  have first: "take 1 (added s s') = [NewClientCall (write_args config (loadLogger config))]"
    by (simp add: t(1))
  have count: "length (filter is_NewClientCall (added s s')) =
      1 + length (filter (read_decodes env) arrivals)"
    by (simp add: t(1) t(3))
  have handle: "\<forall>h q. WriteCall h q \<in> set (added s s') \<longrightarrow>
      h = fst (NewClient env (write_args config (loadLogger config)))"
    using t(2) by (simp add: t(1))
  have exact: "sint (a_timeout (write_args config (loadLogger config))) =
      1000000000 * sint (TimeoutSeconds config)"
    if "- 9223372036 \<le> sint (TimeoutSeconds config)" "sint (TimeoutSeconds config) \<le> 9223372036"
    using timeout_exact [OF that] by (simp add: write_args_def)
  have same: "main (env\<lparr>NewClient := \<lambda>a. (fst (NewClient env a), None)\<rparr>) config arrivals lerr s =
      (s', outs)"
    by (simp only: main_ignores_construction_error assms)
  from first count handle exact same show ?thesis
    by (simp add: write_args_def)
qed

theorem write_client_is_built_once_at_start_witness:
  "- 9223372036 \<le> sint (TimeoutSeconds toy_Config) \<and>
   sint (TimeoutSeconds toy_Config) \<le> 9223372036 \<and>
   sint (a_timeout (write_args toy_Config (loadLogger toy_Config))) = 60000000000 \<and>
   WriteCall (Some (write_args toy_Config (loadLogger toy_Config))) ''up 1.0@1000'' \<in>
     set (added world0
       (fst (main toy_env toy_Config
          [(WriteRoute, request ''swup 1.0@1000'', []), (ReadRoute, request ''squp'', [])]
          ''closed'' world0))) \<and>
   fst (NewClient toy_env (write_args toy_Config (loadLogger toy_Config))) =
     Some (write_args toy_Config (loadLogger toy_Config)) \<and>
   length (filter is_NewClientCall
     (added world0
       (fst (main toy_env toy_Config
          [(WriteRoute, request ''swup 1.0@1000'', []), (ReadRoute, request ''squp'', [])]
          ''closed'' world0)))) = 2"
proof -
  have range: "- 9223372036 \<le> sint (TimeoutSeconds toy_Config)"
    "sint (TimeoutSeconds toy_Config) \<le> 9223372036"
    "sint (TimeoutSeconds toy_Config) = 60"
    by (simp_all add: toy_defs)
  have n: "fst (NewClient toy_env (write_args toy_Config (loadLogger toy_Config))) =
      Some (write_args toy_Config (loadLogger toy_Config))"
    by (simp add: toy_defs write_args_def)
  have m: "WriteCall (Some (write_args toy_Config (loadLogger toy_Config))) ''up 1.0@1000'' \<in>
     set (added world0
       (fst (main toy_env toy_Config
          [(WriteRoute, request ''swup 1.0@1000'', []), (ReadRoute, request ''squp'', [])]
          ''closed'' world0)))"
    by (simp add: main_def added_def toy_defs run_defs)
  have x: "sint (time_Second * TimeoutSeconds toy_Config) = 60000000000"
    by (simp add: toy_defs time_Second_def)
  have k: "length (filter (read_decodes toy_env)
      [(WriteRoute, request ''swup 1.0@1000'', []), (ReadRoute, request ''squp'', [])]) = 1"
    by (simp add: toy_defs)
  from write_client_is_built_once_at_start [OF prod.collapse [symmetric], where env = toy_env
      and config = toy_Config and s = world0 and lerr = "''closed''"
      and arrivals = "[(WriteRoute, request ''swup 1.0@1000'', []),
                       (ReadRoute, request ''squp'', [])]"]
    range n m k x
  show ?thesis
    by simp
qed

text \<open>
  The claim as written fails on a configured timeout whose nanoseconds do not fit an
  \<^verbatim>\<open>int64\<close>: with \<^verbatim>\<open>-timeout 9223372037\<close> the client \<^verbatim>\<open>main\<close> constructs gets a negative
  duration, not 9223372037 seconds.
\<close>

theorem timeout_of_9223372037_seconds_is_negative:
  "sint (TimeoutSeconds overflow_Config) = 9223372037 \<and>
   take 1 (added world0 (fst (main toy_env overflow_Config [] ''closed'' world0))) =
     [NewClientCall (write_args overflow_Config (loadLogger overflow_Config))] \<and>
   sint (a_timeout (write_args overflow_Config (loadLogger overflow_Config))) =
     - 9223372036709551616 \<and>
   sint (a_timeout (write_args overflow_Config (loadLogger overflow_Config))) \<noteq>
     1000000000 * sint (TimeoutSeconds overflow_Config)"
  by (simp add: overflow_Config_def main_def added_def toy_defs run_defs)

subsection \<open>The method\<close>

text \<open>
  C10. Neither handler looks at the method of the request: with any method in place
  of \<^verbatim>\<open>POST\<close>, the same request in the same state gives the same state, the same
  response and the same exit.
\<close>

theorem method_is_not_inspected:
  "handle_read env config l (r\<lparr>Method := m\<rparr>) w s =
     handle_read env config l (r\<lparr>Method := ''POST''\<rparr>) w s \<and>
   handle_write env l wc (r\<lparr>Method := m\<rparr>) w s =
     handle_write env l wc (r\<lparr>Method := ''POST''\<rparr>) w s"
  by (simp add: handle_read_def handle_write_def BasicAuth_def cong: sum.case_cong)

end
